theory Spec2Isabelle
  imports Main "HOL-Library.AList" "HOL-Library.Monad_Syntax"
begin

section \<open>Cloud sync of checklist profiles (docs/js/sync.js)\<close>

text \<open>
  The synchronised data is JSON. A JavaScript object that the code uses as a dictionary
  (profile name to profile, item id to value, item id to timestamp) is an association
  list of its own properties in insertion order. Writing \<open>o[k] = v\<close> is
  \<^const>\<open>AList.update\<close>, which overwrites an existing key in place and appends a
  new key at the end, as an object does. A JavaScript object has no two properties of
  the same name; \<open>wf_obj\<close> below says so.

  Reading \<open>o[k]\<close> and testing \<open>k in o\<close> also find what the object inherits from
  \<open>Object.prototype\<close>: for the names in \<open>object_prototype_functions\<close> a built-in
  function, for \<open>__proto__\<close> the object \<open>Object.prototype\<close> itself. \<open>mergeProfiles\<close>
  reads profile names and item ids this way, with no test for an own property, so the
  model follows the inherited names where the code reads them (\<open>js_in\<close>, \<open>ts_lookup\<close>).
  One case is not followed to its end: for a remote profile named \<open>__proto__\<close> that the
  local document lacks, the code assigns properties to \<open>Object.prototype\<close>, which every
  object inherits from then on; the model leaves the merged profiles as they are at
  that step and does not describe the later reads of the inherited properties.

  \<open>$.each\<close> and \<open>$.extend\<close> are jQuery's and not part of the sources: \<open>$.each\<close> is
  taken to call its callback once for each own property of the object, in order, and
  \<open>$.extend({}, src)\<close> to copy each own property of \<open>src\<close>.

  Numbers are timestamps (\<open>Date.now()\<close>, milliseconds) and version counters; they are
  unbounded integers here, which is exact for JavaScript numbers of magnitude below
  \<open>2^53\<close>. The values of checklist items and of the other profile settings are never
  inspected by the code, so their type is a parameter \<open>'v\<close>.
\<close>

subsection \<open>Data model\<close>

type_synonym 'a obj = "(string \<times> 'a) list"

definition wf_obj :: "'a obj \<Rightarrow> bool" where
  "wf_obj ob = distinct (map fst ob)"

text \<open>\<open>x || 0\<close> on an optional number: undefined and 0 both give 0.\<close>

definition or0 :: "int option \<Rightarrow> int" where
  "or0 x = (case x of None \<Rightarrow> 0 | Some n \<Rightarrow> n)"

text \<open>\<open>x || {}\<close> on an optional object: every object, also the empty one, is truthy.\<close>

definition or_empty :: "'a obj option \<Rightarrow> 'a obj" where
  "or_empty x = (case x of None \<Rightarrow> [] | Some ob \<Rightarrow> ob)"

text \<open>
  \<open>{ lastSyncAt, version }\<close>: the document's \<open>_syncMeta\<close> carries both, a profile's
  \<open>syncMeta\<close> is only read for \<open>lastSyncAt\<close>.
\<close>

record sync_meta =
  lastSyncAt :: "int option"
  version :: "int option"

text \<open>
  A profile. \<open>checklistData\<close>, \<open>checklistTimestamps\<close> and \<open>syncMeta\<close> may be absent
  (\<open>None\<close>). Every other property of the profile object, among them \<open>style\<close>,
  \<open>journey\<close>, \<open>hide_completed\<close>, \<open>collapsed\<close> and \<open>map_settings\<close>, is an entry of
  \<open>props\<close>.
\<close>

record 'v profile =
  checklistData :: "'v obj option"
  checklistTimestamps :: "int obj option"
  syncMeta :: "sync_meta option"
  props :: "'v obj"

text \<open>
  The document stored under \<open>profilesKey\<close>: \<open>profiles\<close> is its property
  \<open>[profilesKey]\<close>, \<open>d_syncMeta\<close> its property \<open>_syncMeta\<close>, \<open>others\<close> the remaining
  properties (such as \<open>current\<close>).
\<close>

record 'v document =
  profiles :: "'v profile obj option"
  d_syncMeta :: "sync_meta option"
  others :: "'v obj"

definition wf_profile :: "'v profile \<Rightarrow> bool" where
  "wf_profile p \<longleftrightarrow>
     wf_obj (or_empty (checklistData p)) \<and> wf_obj (or_empty (checklistTimestamps p))
     \<and> wf_obj (props p)"

definition wf_document :: "'v document \<Rightarrow> bool" where
  "wf_document d \<longleftrightarrow>
     wf_obj (or_empty (profiles d)) \<and> list_all (\<lambda>(n, p). wf_profile p) (or_empty (profiles d))
     \<and> wf_obj (others d)"

subsection \<open>Field-level merge (mergeProfiles)\<close>

text \<open>
  \<open>JSON.parse(JSON.stringify(x))\<close>: on JSON data the copy has the value of the original.
\<close>

definition deep_copy :: "'a \<Rightarrow> 'a" where
  "deep_copy x = x"

text \<open>\<open>$.extend({}, src)\<close>: a new object that receives the properties of \<open>src\<close> in order.\<close>

definition extend_new :: "'a obj \<Rightarrow> 'a obj" where
  "extend_new src = fold (\<lambda>(k, v) target. AList.update k v target) src []"

text \<open>
  The properties of \<open>Object.prototype\<close> that hold functions; every object that is
  created by \<open>{}\<close> or by \<open>JSON.parse\<close> inherits them.
\<close>

definition object_prototype_functions :: "string list" where
  "object_prototype_functions =
     [''constructor'', ''hasOwnProperty'', ''isPrototypeOf'', ''propertyIsEnumerable'',
      ''toLocaleString'', ''toString'', ''valueOf'', ''__defineGetter__'',
      ''__defineSetter__'', ''__lookupGetter__'', ''__lookupSetter__'']"

text \<open>The names that every such object inherits.\<close>

definition inherited :: "string \<Rightarrow> bool" where
  "inherited k \<longleftrightarrow> k \<in> set object_prototype_functions \<or> k = ''__proto__''"

text \<open>\<open>k in ob\<close>: an own or an inherited property.\<close>

definition js_in :: "string \<Rightarrow> 'a obj \<Rightarrow> bool" where
  "js_in k ob \<longleftrightarrow> inherited k \<or> map_of ob k \<noteq> None"

text \<open>
  \<open>ts[k] || 0\<close> on an object of timestamps: the own number, 0 for a name that is
  neither own nor inherited, and for an inherited name that is not own the inherited
  function or object, which is not a number (\<open>None\<close>). Compared with a number by \<open>>\<close>
  such a value is converted to \<open>NaN\<close>, and the comparison is false.
\<close>

definition ts_lookup :: "int obj \<Rightarrow> string \<Rightarrow> int option" where
  "ts_lookup ts k =
     (case map_of ts k of
        Some n \<Rightarrow> Some n
      | None \<Rightarrow> if inherited k then None else Some 0)"

text \<open>
  \<open>ob[k] = v\<close> on a dictionary, for a value \<open>v\<close> that is not an object: the
  assignment creates or overwrites the own property \<open>k\<close>, except that for \<open>__proto__\<close>,
  when it is not an own property, it calls the inherited setter, which ignores such a
  value.
\<close>

definition js_set :: "string \<Rightarrow> 'a \<Rightarrow> 'a obj \<Rightarrow> 'a obj" where
  "js_set k v ob =
     (if k = ''__proto__'' \<and> map_of ob k = None then ob else AList.update k v ob)"

text \<open>
  The body of the inner \<open>$.each(rp.checklistData || {}, function (itemId, rVal) ...)\<close>;
  the pair is \<open>(mergedData, mergedTs)\<close>. \<open>rt > lt\<close> holds only between two numbers.
\<close>

definition merge_item ::
  "int obj \<Rightarrow> int obj \<Rightarrow> string \<times> 'v \<Rightarrow> 'v obj \<times> int obj \<Rightarrow> 'v obj \<times> int obj" where
  "merge_item localTs remoteTs = (\<lambda>(itemId, rVal) (mergedData, mergedTs).
     case (ts_lookup remoteTs itemId, ts_lookup localTs itemId) of
       (Some rt, Some lt) \<Rightarrow>
         if rt > lt then (js_set itemId rVal mergedData, js_set itemId rt mergedTs)
         else (mergedData, mergedTs)
     | _ \<Rightarrow> (mergedData, mergedTs))"

definition nonmergeable :: "string list" where
  "nonmergeable = [''style'', ''journey'', ''hide_completed'', ''collapsed'', ''map_settings'']"

text \<open>The body of the \<open>forEach\<close>: \<open>if (rp[k] !== undefined) lp[k] = rp[k]\<close>.\<close>

definition copy_field :: "'v profile \<Rightarrow> string \<Rightarrow> 'v profile \<Rightarrow> 'v profile" where
  "copy_field rp k lp =
     (case map_of (props rp) k of
        None \<Rightarrow> lp
      | Some v \<Rightarrow> lp\<lparr>props := AList.update k v (props lp)\<rparr>)"

text \<open>\<open>(p.syncMeta && p.syncMeta.lastSyncAt) || 0\<close>\<close>

definition syncAt :: "sync_meta option \<Rightarrow> int" where
  "syncAt m = (case m of None \<Rightarrow> 0 | Some sm \<Rightarrow> or0 (lastSyncAt sm))"

text \<open>
  The part of the outer callback that runs when the profile exists on both sides: \<open>lp\<close>
  is the profile of the merged copy, \<open>rp\<close> the remote one; the result is \<open>lp\<close> after the
  assignments.
\<close>

definition merge_profile :: "'v profile \<Rightarrow> 'v profile \<Rightarrow> 'v profile" where
  "merge_profile lp rp =
     (let localTs = or_empty (checklistTimestamps lp);
          remoteTs = or_empty (checklistTimestamps rp);
          mergedData = extend_new (or_empty (checklistData lp));
          mergedTs = extend_new localTs;
          (mergedData', mergedTs') =
             fold (merge_item localTs remoteTs) (or_empty (checklistData rp)) (mergedData, mergedTs);
          lp1 = lp\<lparr>checklistData := Some mergedData', checklistTimestamps := Some mergedTs'\<rparr>;
          lSyncAt = syncAt (syncMeta lp1);
          rSyncAt = syncAt (syncMeta rp)
      in if rSyncAt > lSyncAt then fold (copy_field rp) nonmergeable lp1 else lp1)"

text \<open>
  The outer callback of \<open>$.each(remoteProfs, function (profileName, rp) ...)\<close>. When
  \<open>profileName in mergedProfs\<close> holds by inheritance alone, \<open>lp\<close> is the inherited
  object, the assignments to \<open>lp.checklistData\<close>, \<open>lp.checklistTimestamps\<close> and
  \<open>lp[k]\<close> go to that object, and \<open>mergedProfs\<close> is as before.
\<close>

definition each_profile :: "string \<times> 'v profile \<Rightarrow> 'v profile obj \<Rightarrow> 'v profile obj" where
  "each_profile = (\<lambda>(profileName, rp) mergedProfs.
     if \<not> js_in profileName mergedProfs then AList.update profileName rp mergedProfs
     else (case map_of mergedProfs profileName of
             None \<Rightarrow> mergedProfs
           | Some lp \<Rightarrow> AList.update profileName (merge_profile lp rp) mergedProfs))"

text \<open>\<open>remote\<close> is \<open>None\<close> for \<open>null\<close>.\<close>

definition mergeProfiles :: "'v document \<Rightarrow> 'v document option \<Rightarrow> 'v document" where
  "mergeProfiles local remote =
     (case remote of
        None \<Rightarrow> local
      | Some r \<Rightarrow>
          let merged = deep_copy local;
              remoteProfs = or_empty (profiles r);
              mergedProfs = or_empty (profiles merged);
              mergedProfs' = fold each_profile remoteProfs mergedProfs
          in merged\<lparr>profiles := Some mergedProfs'\<rparr>)"

subsection \<open>Promises and errors\<close>

text \<open>
  A rejection value; only its \<open>message\<close> is read, and it may be missing.
  \<open>err.message || dflt\<close> takes the default for a missing and for an empty message.
\<close>

datatype js_error = JsError (message: "string option")

definition or_msg :: "string option \<Rightarrow> string \<Rightarrow> string" where
  "or_msg m dflt = (case m of None \<Rightarrow> dflt | Some s \<Rightarrow> if s = [] then dflt else s)"

text \<open>How a promise settles.\<close>

datatype 'a promise = Rejected js_error | Resolved 'a

subsection \<open>The Google Drive provider\<close>

text \<open>
  The provider object. \<open>fileId\<close> caches the id of the remote file once it was found or
  created.
\<close>

record provider =
  accessToken :: "string option"
  tokenExpiry :: int
  fileId :: "string option"

text \<open>\<open>!!id\<close> for an optional string: \<open>null\<close> and the empty string are falsy.\<close>

definition truthy_id :: "string option \<Rightarrow> bool" where
  "truthy_id x = (case x of None \<Rightarrow> False | Some s \<Rightarrow> s \<noteq> [])"

text \<open>
  \<open>_findFile\<close>. \<open>listing\<close> is how the request for the list of files named
  \<open>roundtable-sync.json\<close> settles, through \<open>_fetch\<close> and \<open>r.json()\<close>: rejected (no token,
  no network, a body that is not JSON), or resolved with the ids of \<open>data.files\<close>
  (\<open>None\<close> when the body has no \<open>files\<close>). The result is the provider, with the id
  cached, and the id.
\<close>

definition findFile ::
  "provider \<Rightarrow> string list option promise \<Rightarrow> (provider \<times> string option) promise" where
  "findFile self listing =
     (if truthy_id (fileId self) then Resolved (self, fileId self)
      else case listing of
             Rejected e \<Rightarrow> Rejected e
           | Resolved files \<Rightarrow>
               (case files of
                  Some (f # fs) \<Rightarrow> Resolved (self\<lparr>fileId := Some f\<rparr>, Some f)
                | _ \<Rightarrow> Resolved (self, fileId self)))"

text \<open>
  The response to the download request: \<open>r.ok\<close>, and how \<open>r.json()\<close> settles (\<open>None\<close> is
  a body that reads \<open>null\<close>).
\<close>

record 'd response =
  ok :: bool
  json :: "'d option promise"


text \<open>
  The decoded body of the response to an upload: the file resource when Drive accepts
  the upload, an error object when it refuses it. Only the property \<open>id\<close> is read
  (\<open>None\<close> when the body has none).
\<close>

record upload_result =
  result_id :: "string option"

text \<open>
  The \<open>TypeError\<close> of reading a property of \<open>null\<close>; the wording of its message is the
  JavaScript engine's, and it is not empty.
\<close>

definition null_result_error :: js_error where
  "null_result_error = JsError (Some ''result is null'')"

definition null_provider_error :: js_error where
  "null_provider_error = JsError (Some ''activeProvider is null'')"

text \<open>
  \<open>push\<close>. \<open>listing\<close> is as for \<open>_findFile\<close>; \<open>upload\<close> is how the upload request
  settles (a \<open>PATCH\<close> of the file that was found, a \<open>POST\<close> of a new file otherwise;
  rejected: no token, no network). The code reads the body of the response whatever its
  status is: \<open>r.ok\<close> is not tested. A body that reads \<open>null\<close> makes \<open>result.id\<close>
  throw. The result is the provider, with the id of the body cached, and the body.
\<close>

definition push ::
  "provider \<Rightarrow> string list option promise \<Rightarrow> upload_result response promise
     \<Rightarrow> (provider \<times> upload_result) promise" where
  "push self listing upload =
     (case findFile self listing of
        Rejected e \<Rightarrow> Rejected e
      | Resolved (self', fid) \<Rightarrow>
          (case upload of
             Rejected e \<Rightarrow> Rejected e
           | Resolved r \<Rightarrow>
               (case json r of
                  Rejected e \<Rightarrow> Rejected e
                | Resolved None \<Rightarrow> Rejected null_result_error
                | Resolved (Some result) \<Rightarrow>
                    if truthy_id (result_id result)
                    then Resolved (self'\<lparr>fileId := result_id result\<rparr>, result)
                    else Resolved (self', result))))"

subsection \<open>Version history\<close>

text \<open>
  A snapshot; \<open>data\<close> stands for the string \<open>JSON.stringify(data)\<close>, which determines the
  document.
\<close>

record 'v snapshot =
  timestamp :: int
  data :: "'v document"

text \<open>
  The \<open>localStorage\<close> item \<open>roundtable_sync_history\<close>: missing, a string that
  \<open>JSON.parse\<close> rejects, or a stored list.
\<close>

datatype 'v history_item = Missing | Unparseable | Stored "'v snapshot list"

definition MAX_HISTORY :: nat where
  "MAX_HISTORY = 10"

definition loadHistory :: "'v history_item \<Rightarrow> 'v snapshot list" where
  "loadHistory item = (case item of Missing \<Rightarrow> [] | Unparseable \<Rightarrow> [] | Stored h \<Rightarrow> h)"

definition saveVersionSnapshot :: "int \<Rightarrow> 'v document \<Rightarrow> 'v history_item \<Rightarrow> 'v history_item" where
  "saveVersionSnapshot now d item =
     (let history = loadHistory item;
          history1 = \<lparr>timestamp = now, data = d\<rparr> # history;
          history2 = (if length history1 > MAX_HISTORY then take MAX_HISTORY history1 else history1)
      in Stored history2)"

subsection \<open>The sync coordinator\<close>

datatype sync_state = Inactive | Pending | Syncing | Synced | Error

text \<open>A call of the provider whose promise has not settled yet.\<close>

datatype 'v request =
    PushReq "'v document"
  | PullReq
  | MergePushReq "'v document" bool

text \<open>
  The module's variables, the two stores it writes (\<open>jStorage\<close>: the value under
  \<open>profilesKey\<close>; \<open>versionHistory\<close>: the history item of \<open>localStorage\<close>) and
  \<open>window.profiles\<close>. The jStorage library is not part of the sources; it is taken as a
  store of values that are read and written whole, so what \<open>get\<close> returns is a copy that
  the caller may change without changing the store; the writes to the two stores are
  taken to succeed. Two fields belong to the model, not to the code: \<open>inflight\<close> lists the provider calls that have not settled, in the order they
  were made (with the arguments their callbacks close over), and \<open>completions\<close> logs
  the arguments of the \<open>onComplete\<close> calls.
\<close>

record 'v coordinator =
  activeProvider :: "provider option"
  pendingChanges :: bool
  currentState :: sync_state
  lastSyncTime :: "int option"
  lastErrorMsg :: string
  jStorage :: "'v document option"
  window_profiles :: "'v document option"
  versionHistory :: "'v history_item"
  inflight :: "'v request list"
  completions :: "bool list"

definition setState :: "sync_state \<Rightarrow> 'v coordinator \<Rightarrow> 'v coordinator" where
  "setState s st = st\<lparr>currentState := s\<rparr>"

text \<open>\<open>$.jStorage.get(profilesKey, {})\<close>\<close>

definition jStorage_get :: "'v coordinator \<Rightarrow> 'v document" where
  "jStorage_get st =
     (case jStorage st of
        None \<Rightarrow> \<lparr>profiles = None, d_syncMeta = None, others = []\<rparr>
      | Some d \<Rightarrow> d)"

text \<open>\<open>(d._syncMeta && d._syncMeta.version) || 0\<close>\<close>

definition metaVersion :: "sync_meta option \<Rightarrow> int" where
  "metaVersion m = (case m of None \<Rightarrow> 0 | Some sm \<Rightarrow> or0 (version sm))"

text \<open>
  \<open>doSync\<close> up to the call of \<open>push\<close>; \<open>now\<close> is \<open>Date.now()\<close>.
\<close>

definition doSync :: "int \<Rightarrow> 'v coordinator \<Rightarrow> 'v coordinator" where
  "doSync now st =
     (if activeProvider st = None \<or> currentState st = Syncing then st
      else let st1 = setState Syncing st;
               localData = jStorage_get st1;
               localData' = localData\<lparr>d_syncMeta :=
                  Some \<lparr>lastSyncAt = Some now,
                        version = Some (metaVersion (d_syncMeta localData) + 1)\<rparr>\<rparr>
           in st1\<lparr>inflight := inflight st1 @ [PushReq localData']\<rparr>)"

text \<open>
  The \<open>then\<close> callback of the push in \<open>doSync\<close>; \<open>t1\<close> and \<open>t2\<close> are the two readings of
  \<open>Date.now()\<close>. The write to jStorage happens under \<open>_internalWrite\<close>, so the change hook
  does not react to it.
\<close>

definition doSync_then :: "int \<Rightarrow> int \<Rightarrow> 'v document \<Rightarrow> 'v coordinator \<Rightarrow> 'v coordinator" where
  "doSync_then t1 t2 localData st =
     (let st1 = st\<lparr>jStorage := Some localData, window_profiles := Some localData\<rparr>;
          st2 = st1\<lparr>versionHistory := saveVersionSnapshot t1 localData (versionHistory st1)\<rparr>;
          st3 = st2\<lparr>lastSyncTime := Some t2, pendingChanges := False\<rparr>
      in setState Synced st3)"

text \<open>The \<open>catch\<close> callback of the push in \<open>doSync\<close>.\<close>

definition doSync_catch :: "js_error \<Rightarrow> 'v coordinator \<Rightarrow> 'v coordinator" where
  "doSync_catch err st =
     setState Error (st\<lparr>lastErrorMsg := or_msg (message err) ''Unknown error''\<rparr>)"

text \<open>\<open>doPullAndMerge\<close> up to the call of \<open>pull\<close>.\<close>

definition doPullAndMerge :: "'v coordinator \<Rightarrow> 'v coordinator" where
  "doPullAndMerge st =
     (if activeProvider st = None then st\<lparr>completions := completions st @ [False]\<rparr>
      else let st1 = setState Syncing st
           in st1\<lparr>inflight := inflight st1 @ [PullReq]\<rparr>)"

text \<open>
  The \<open>catch\<close> callback of the pull. It also receives what the \<open>then\<close> callback of the
  pull throws.
\<close>

definition doPullAndMerge_catch :: "js_error \<Rightarrow> 'v coordinator \<Rightarrow> 'v coordinator" where
  "doPullAndMerge_catch err st =
     (let st1 = setState Error (st\<lparr>lastErrorMsg := or_msg (message err) ''Could not reach cloud''\<rparr>)
      in st1\<lparr>completions := completions st1 @ [False]\<rparr>)"

text \<open>
  The \<open>then\<close> callback of the pull, up to the call of \<open>push\<close>. \<open>t0\<close> is the time the
  nested \<open>doSync\<close> would read, \<open>now\<close> the time of the merge. When the remote document is
  not newer, \<open>merged\<close> is the object \<open>localData\<close> itself, so the assignment of
  \<open>_syncMeta\<close> changes both and \<open>dataChanged\<close> is false. The callback does not test
  \<open>activeProvider\<close>: when it is \<open>null\<close> by then (\<open>_deactivate\<close> ran while the pull was
  in flight), the merged document is stored, \<open>activeProvider.push(merged)\<close> throws, and
  the \<open>catch\<close> callback of the pull runs.
\<close>

definition doPullAndMerge_then ::
  "int \<Rightarrow> int \<Rightarrow> 'v document option \<Rightarrow> 'v coordinator \<Rightarrow> 'v coordinator" where
  "doPullAndMerge_then t0 now remoteData st =
     (case remoteData of
        None \<Rightarrow> (let st1 = doSync t0 st in st1\<lparr>completions := completions st1 @ [False]\<rparr>)
      | Some rd \<Rightarrow>
          let localData = jStorage_get st;
              localSyncAt = syncAt (d_syncMeta localData);
              remoteSyncAt = syncAt (d_syncMeta rd);
              merged = (if remoteSyncAt > localSyncAt then mergeProfiles localData (Some rd)
                        else localData);
              merged' = merged\<lparr>d_syncMeta :=
                 Some \<lparr>lastSyncAt = Some now,
                       version = Some (max (metaVersion (d_syncMeta localData))
                                           (metaVersion (d_syncMeta rd)) + 1)\<rparr>\<rparr>;
              dataChanged = (if remoteSyncAt > localSyncAt then merged' \<noteq> localData else False);
              st1 = st\<lparr>jStorage := Some merged', window_profiles := Some merged'\<rparr>
          in case activeProvider st1 of
               None \<Rightarrow> doPullAndMerge_catch null_provider_error st1
             | Some provider \<Rightarrow>
                 st1\<lparr>inflight := inflight st1 @ [MergePushReq merged' dataChanged]\<rparr>)"

text \<open>The \<open>then\<close> and \<open>catch\<close> callbacks of the push in \<open>doPullAndMerge\<close>.\<close>

definition mergePush_then ::
  "int \<Rightarrow> int \<Rightarrow> 'v document \<Rightarrow> bool \<Rightarrow> 'v coordinator \<Rightarrow> 'v coordinator" where
  "mergePush_then t1 t2 merged dataChanged st =
     (let st1 = st\<lparr>versionHistory := saveVersionSnapshot t1 merged (versionHistory st)\<rparr>;
          st2 = st1\<lparr>lastSyncTime := Some t2, pendingChanges := False\<rparr>;
          st3 = setState Synced st2
      in st3\<lparr>completions := completions st3 @ [dataChanged]\<rparr>)"

definition mergePush_catch :: "js_error \<Rightarrow> 'v coordinator \<Rightarrow> 'v coordinator" where
  "mergePush_catch err st =
     (let st1 = setState Error (st\<lparr>lastErrorMsg := or_msg (message err) ''Unknown error''\<rparr>)
      in st1\<lparr>completions := completions st1 @ [False]\<rparr>)"

text \<open>
  How a provider call settles: a push succeeds (with the two later readings of the
  clock) or fails; a pull delivers \<open>null\<close> or a document (with the clock readings the
  callback makes) or fails.
\<close>

datatype 'v settled =
    PushOk int int
  | PushFailed js_error
  | PullOk "'v document option" int int
  | PullFailed js_error

text \<open>
  How the promise of \<open>push\<close> settles the call in flight: resolved, the \<open>then\<close> callback
  runs (with its two readings of the clock); rejected, the \<open>catch\<close> callback runs.
\<close>

definition push_outcome :: "(provider \<times> upload_result) promise \<Rightarrow> int \<Rightarrow> int \<Rightarrow> 'v settled" where
  "push_outcome p t1 t2 = (case p of Resolved x \<Rightarrow> PushOk t1 t2 | Rejected e \<Rightarrow> PushFailed e)"

text \<open>
  The \<open>i\<close>-th call in flight settles: it leaves the list and its callback runs. An
  outcome that does not fit the call (or an index out of range) changes nothing.
\<close>

definition settle :: "nat \<Rightarrow> 'v settled \<Rightarrow> 'v coordinator \<Rightarrow> 'v coordinator" where
  "settle i outcome st =
     (if i \<ge> length (inflight st) then st
      else let st' = st\<lparr>inflight := take i (inflight st) @ drop (Suc i) (inflight st)\<rparr>
           in case (inflight st ! i, outcome) of
                (PushReq d, PushOk t1 t2) \<Rightarrow> doSync_then t1 t2 d st'
              | (PushReq d, PushFailed e) \<Rightarrow> doSync_catch e st'
              | (PullReq, PullOk rd t0 now) \<Rightarrow> doPullAndMerge_then t0 now rd st'
              | (PullReq, PullFailed e) \<Rightarrow> doPullAndMerge_catch e st'
              | (MergePushReq d c, PushOk t1 t2) \<Rightarrow> mergePush_then t1 t2 d c st'
              | (MergePushReq d c, PushFailed e) \<Rightarrow> mergePush_catch e st'
              | _ \<Rightarrow> st)"

text \<open>
  \<open>_deactivate\<close>, without its timers, the sync configuration and the alert. The calls
  in flight stay in flight.
\<close>

definition deactivate :: "'v coordinator \<Rightarrow> 'v coordinator" where
  "deactivate st = setState Inactive (st\<lparr>activeProvider := None, pendingChanges := False\<rparr>)"

text \<open>The public \<open>getHistory\<close>.\<close>

definition getHistory :: "'v coordinator \<Rightarrow> 'v snapshot list" where
  "getHistory st = loadHistory (versionHistory st)"

text \<open>The history after a sequence of successful pushes, each with its time and document.\<close>

definition save_all :: "(int \<times> 'v document) list \<Rightarrow> 'v history_item \<Rightarrow> 'v history_item" where
  "save_all pushes item = fold (\<lambda>(t, d). saveVersionSnapshot t d) pushes item"

subsection \<open>mergeProfiles on a store of objects\<close>

text \<open>
  To say which objects \<open>mergeProfiles\<close> writes, the objects live in a store: a list of
  cells, an object's address being its index, and a new object being appended. A cell
  is one of the kinds of object the function reads or writes; a property that holds
  such an object holds its address. The values of \<open>_syncMeta\<close>, \<open>syncMeta\<close> and of the
  other properties are never written by \<open>mergeProfiles\<close> and stay inside the cell. A
  read of a missing cell, or of a cell of the wrong kind, has no result (\<open>None\<close>).

  A \<open>FunCell\<close> is a built-in function of \<open>Object.prototype\<close>. Of its properties the
  cell holds those that \<open>mergeProfiles\<close> reads and writes on the object it takes for the
  local profile: \<open>checklistData\<close>, \<open>checklistTimestamps\<close>, \<open>syncMeta\<close> and the others. A
  function has none of them until they are assigned to it. \<open>JSON.stringify\<close> gives no
  value for a function, so a document never reads through a \<open>FunCell\<close>.
\<close>

type_synonym addr = nat

datatype 'v cell =
    DocCell "addr option" "sync_meta option" "'v obj"
  | ProfsCell "addr obj"
  | ProfileCell "addr option" "addr option" "sync_meta option" "'v obj"
  | FunCell "addr option" "addr option" "sync_meta option" "'v obj"
  | DataCell "'v obj"
  | TsCell "int obj"

type_synonym 'v heap = "'v cell list"

definition lookup :: "'v heap \<Rightarrow> addr \<Rightarrow> 'v cell option" where
  "lookup h a = (if a < length h then Some (h ! a) else None)"

definition alloc :: "'v cell \<Rightarrow> 'v heap \<Rightarrow> 'v heap \<times> addr" where
  "alloc c h = (h @ [c], length h)"

definition get_doc :: "'v heap \<Rightarrow> addr \<Rightarrow> (addr option \<times> sync_meta option \<times> 'v obj) option" where
  "get_doc h a = (case lookup h a of Some (DocCell pr sm ot) \<Rightarrow> Some (pr, sm, ot) | _ \<Rightarrow> None)"

definition get_profs :: "'v heap \<Rightarrow> addr \<Rightarrow> addr obj option" where
  "get_profs h a = (case lookup h a of Some (ProfsCell refs) \<Rightarrow> Some refs | _ \<Rightarrow> None)"

text \<open>
  The properties of the object at \<open>a\<close>, which is a built-in function (\<open>f\<close> true) or a
  profile object (\<open>f\<close> false).
\<close>

definition get_obj ::
  "bool \<Rightarrow> 'v heap \<Rightarrow> addr \<Rightarrow> (addr option \<times> addr option \<times> sync_meta option \<times> 'v obj) option" where
  "get_obj f h a =
     (case lookup h a of
        Some (ProfileCell da ta sm pr) \<Rightarrow> if f then None else Some (da, ta, sm, pr)
      | Some (FunCell da ta sm pr) \<Rightarrow> if f then Some (da, ta, sm, pr) else None
      | _ \<Rightarrow> None)"

abbreviation get_profile ::
  "'v heap \<Rightarrow> addr \<Rightarrow> (addr option \<times> addr option \<times> sync_meta option \<times> 'v obj) option" where
  "get_profile \<equiv> get_obj False"


text \<open>The cell of such an object.\<close>

definition obj_cell ::
  "bool \<Rightarrow> addr option \<Rightarrow> addr option \<Rightarrow> sync_meta option \<Rightarrow> 'v obj \<Rightarrow> 'v cell" where
  "obj_cell f da ta sm pr = (if f then FunCell da ta sm pr else ProfileCell da ta sm pr)"

definition get_data :: "'v heap \<Rightarrow> addr \<Rightarrow> 'v obj option" where
  "get_data h a = (case lookup h a of Some (DataCell d) \<Rightarrow> Some d | _ \<Rightarrow> None)"

definition get_ts :: "'v heap \<Rightarrow> addr \<Rightarrow> int obj option" where
  "get_ts h a = (case lookup h a of Some (TsCell t) \<Rightarrow> Some t | _ \<Rightarrow> None)"

text \<open>\<open>x || {}\<close> for a property that holds an object or is absent, read as its content.\<close>

definition data_or_empty :: "'v heap \<Rightarrow> addr option \<Rightarrow> 'v obj option" where
  "data_or_empty h da = (case da of None \<Rightarrow> Some [] | Some a \<Rightarrow> get_data h a)"

definition ts_or_empty :: "'v heap \<Rightarrow> addr option \<Rightarrow> int obj option" where
  "ts_or_empty h ta = (case ta of None \<Rightarrow> Some [] | Some a \<Rightarrow> get_ts h a)"

definition profs_or_empty :: "'v heap \<Rightarrow> addr option \<Rightarrow> addr obj option" where
  "profs_or_empty h pa = (case pa of None \<Rightarrow> Some [] | Some a \<Rightarrow> get_profs h a)"

text \<open>A loop whose body may have no result.\<close>

fun fold_opt :: "('a \<Rightarrow> 's \<Rightarrow> 's option) \<Rightarrow> 'a list \<Rightarrow> 's \<Rightarrow> 's option" where
  "fold_opt f [] s = Some s"
| "fold_opt f (x # xs) s = (case f x s of None \<Rightarrow> None | Some s' \<Rightarrow> fold_opt f xs s')"

text \<open>
  The value of the object at an address: of a profile object what \<open>JSON.stringify\<close>
  gives, of a built-in function what its properties hold.
\<close>

definition read_obj :: "bool \<Rightarrow> 'v heap \<Rightarrow> addr \<Rightarrow> 'v profile option" where
  "read_obj f h a = do {
     (da, ta, sm, pr) \<leftarrow> get_obj f h a;
     d \<leftarrow> (case da of None \<Rightarrow> Some None | Some x \<Rightarrow> do { v \<leftarrow> get_data h x; Some (Some v) });
     t \<leftarrow> (case ta of None \<Rightarrow> Some None | Some x \<Rightarrow> do { v \<leftarrow> get_ts h x; Some (Some v) });
     Some \<lparr>checklistData = d, checklistTimestamps = t, syncMeta = sm, props = pr\<rparr>
   }"

abbreviation read_profile :: "'v heap \<Rightarrow> addr \<Rightarrow> 'v profile option" where
  "read_profile \<equiv> read_obj False"

fun read_entries :: "'v heap \<Rightarrow> addr obj \<Rightarrow> 'v profile obj option" where
  "read_entries h [] = Some []"
| "read_entries h ((n, a) # refs) = do {
     p \<leftarrow> read_profile h a;
     ps \<leftarrow> read_entries h refs;
     Some ((n, p) # ps)
   }"

definition read_document :: "'v heap \<Rightarrow> addr \<Rightarrow> 'v document option" where
  "read_document h a = do {
     (pr, sm, ot) \<leftarrow> get_doc h a;
     ps \<leftarrow> (case pr of
            None \<Rightarrow> Some None
          | Some pa \<Rightarrow> do { refs \<leftarrow> get_profs h pa; es \<leftarrow> read_entries h refs; Some (Some es) });
     Some \<lparr>profiles = ps, d_syncMeta = sm, others = ot\<rparr>
   }"

text \<open>\<open>JSON.parse\<close>: new objects for a value; the result is the store and the address.\<close>

definition alloc_profile :: "'v profile \<Rightarrow> 'v heap \<Rightarrow> 'v heap \<times> addr" where
  "alloc_profile p h =
     (let (h1, da) = (case checklistData p of
                        None \<Rightarrow> (h, None)
                      | Some d \<Rightarrow> (let (h', a) = alloc (DataCell d) h in (h', Some a)));
          (h2, ta) = (case checklistTimestamps p of
                        None \<Rightarrow> (h1, None)
                      | Some t \<Rightarrow> (let (h', a) = alloc (TsCell t) h1 in (h', Some a)))
      in alloc (ProfileCell da ta (syncMeta p) (props p)) h2)"

fun alloc_entries :: "'v profile obj \<Rightarrow> 'v heap \<Rightarrow> 'v heap \<times> addr obj" where
  "alloc_entries [] h = (h, [])"
| "alloc_entries ((n, p) # ps) h =
     (let (h1, a) = alloc_profile p h;
          (h2, refs) = alloc_entries ps h1
      in (h2, (n, a) # refs))"

definition alloc_document :: "'v document \<Rightarrow> 'v heap \<Rightarrow> 'v heap \<times> addr" where
  "alloc_document d h =
     (let (h1, pr) = (case profiles d of
                        None \<Rightarrow> (h, None)
                      | Some ps \<Rightarrow> (let (h', refs) = alloc_entries ps h;
                                       (h'', a) = alloc (ProfsCell refs) h'
                                   in (h'', Some a)))
      in alloc (DocCell pr (d_syncMeta d) (others d)) h1)"

text \<open>
  The built-in functions of \<open>Object.prototype\<close> are at the addresses 0 to 10 of the
  store, in the order of \<open>object_prototype_functions\<close>.
\<close>

definition builtins :: "addr obj" where
  "builtins = zip object_prototype_functions [0 ..< length object_prototype_functions]"

text \<open>
  \<open>mergedProfs[profileName]\<close> when \<open>profileName in mergedProfs\<close> holds: the address of
  the own property, or else of the inherited function, and whether it is a function. For
  \<open>__proto__\<close> that is not an own property the value is \<open>Object.prototype\<close> itself, which
  the store does not hold: there is no result.
\<close>

definition inherited_ref :: "addr obj \<Rightarrow> string \<Rightarrow> (bool \<times> addr) option" where
  "inherited_ref mergedProfs profileName =
     (case map_of mergedProfs profileName of
        Some a \<Rightarrow> Some (False, a)
      | None \<Rightarrow> (case map_of builtins profileName of
                   Some a \<Rightarrow> Some (True, a)
                 | None \<Rightarrow> None))"

text \<open>
  The body of the item loop: \<open>lta\<close> and \<open>rta\<close> are what \<open>lp.checklistTimestamps\<close> and
  \<open>rp.checklistTimestamps\<close> held before the loop (absent: the empty object of \<open>|| {}\<close>),
  \<open>mergedData\<close> and \<open>mergedTs\<close> the addresses of the two new objects.
\<close>

definition each_item_st ::
  "addr option \<Rightarrow> addr option \<Rightarrow> addr \<Rightarrow> addr \<Rightarrow> string \<times> 'v \<Rightarrow> 'v heap \<Rightarrow> 'v heap option" where
  "each_item_st lta rta mergedData mergedTs = (\<lambda>(itemId, rVal) h. do {
     remoteTs \<leftarrow> ts_or_empty h rta;
     localTs \<leftarrow> ts_or_empty h lta;
     case (ts_lookup remoteTs itemId, ts_lookup localTs itemId) of
       (Some rt, Some lt) \<Rightarrow>
         if rt > lt then do {
           d \<leftarrow> get_data h mergedData;
           let h1 = h[mergedData := DataCell (js_set itemId rVal d)];
           t \<leftarrow> get_ts h1 mergedTs;
           Some (h1[mergedTs := TsCell (js_set itemId rt t)])
         } else Some h
     | _ \<Rightarrow> Some h
   })"

text \<open>
  \<open>if (rp[k] !== undefined) lp[k] = rp[k]\<close> on the objects at \<open>lp\<close> and \<open>rp\<close>; \<open>f\<close>
  says whether \<open>lp\<close> is a function.
\<close>

definition copy_field_st :: "bool \<Rightarrow> addr \<Rightarrow> addr \<Rightarrow> string \<Rightarrow> 'v heap \<Rightarrow> 'v heap option" where
  "copy_field_st f lp rp k h = do {
     (rda, rta, rsm, rpr) \<leftarrow> get_profile h rp;
     case map_of rpr k of
       None \<Rightarrow> Some h
     | Some v \<Rightarrow> do {
         (lda, lta, lsm, lpr) \<leftarrow> get_obj f h lp;
         Some (h[lp := obj_cell f lda lta lsm (AList.update k v lpr)])
       }
   }"

text \<open>
  The outer callback; \<open>mergedProfs\<close> is the address of the merged profiles object. When
  \<open>lp\<close> is an inherited function, the assignments to \<open>lp.checklistData\<close>,
  \<open>lp.checklistTimestamps\<close> and \<open>lp[k]\<close> write that function.
\<close>

definition each_profile_st :: "addr \<Rightarrow> string \<times> addr \<Rightarrow> 'v heap \<Rightarrow> 'v heap option" where
  "each_profile_st mergedProfs = (\<lambda>(profileName, rp) h. do {
     mp \<leftarrow> get_profs h mergedProfs;
     if \<not> js_in profileName mp
     then Some (h[mergedProfs := ProfsCell (AList.update profileName rp mp)])
     else do {
         (f, lp) \<leftarrow> inherited_ref mp profileName;
         (lda, lta, lsm, lpr) \<leftarrow> get_obj f h lp;
         (rda, rta, rsm, rpr) \<leftarrow> get_profile h rp;
         ldata \<leftarrow> data_or_empty h lda;
         let (h1, mergedData) = alloc (DataCell (extend_new ldata)) h;
         localTs \<leftarrow> ts_or_empty h1 lta;
         let (h2, mergedTs) = alloc (TsCell (extend_new localTs)) h1;
         rdata \<leftarrow> data_or_empty h2 rda;
         h3 \<leftarrow> fold_opt (each_item_st lta rta mergedData mergedTs) rdata h2;
         (lda3, lta3, lsm3, lpr3) \<leftarrow> get_obj f h3 lp;
         let h4 = h3[lp := obj_cell f (Some mergedData) (Some mergedTs) lsm3 lpr3];
         (rda4, rta4, rsm4, rpr4) \<leftarrow> get_profile h4 rp;
         if syncAt rsm4 > syncAt lsm3 then fold_opt (copy_field_st f lp rp) nonmergeable h4
         else Some h4
       }
   })"

text \<open>
  \<open>mergeProfiles\<close> on the store: \<open>local\<close> and \<open>remote\<close> are addresses of document
  objects (\<open>remote\<close> is \<open>None\<close> for \<open>null\<close>); the result is the store after the call and
  the address returned.
\<close>

definition mergeProfiles_st ::
  "'v heap \<Rightarrow> addr \<Rightarrow> addr option \<Rightarrow> ('v heap \<times> addr) option" where
  "mergeProfiles_st h local remote =
     (case remote of
        None \<Rightarrow> Some (h, local)
      | Some r \<Rightarrow> do {
          d \<leftarrow> read_document h local;
          let (h1, merged) = alloc_document d h;
          (rpr, rsm, rot) \<leftarrow> get_doc h1 r;
          remoteProfs \<leftarrow> profs_or_empty h1 rpr;
          (mpr, msm, mot) \<leftarrow> get_doc h1 merged;
          let (h2, mergedProfs) = (case mpr of
                                     None \<Rightarrow> alloc (ProfsCell []) h1
                                   | Some a \<Rightarrow> (h1, a));
          h3 \<leftarrow> fold_opt (each_profile_st mergedProfs) remoteProfs h2;
          (mpr3, msm3, mot3) \<leftarrow> get_doc h3 merged;
          Some (h3[merged := DocCell (Some mergedProfs) msm3 mot3], merged)
        })"

subsection \<open>Notions used in the statements\<close>




text \<open>The document that a cycle at time \<open>now\<close> gives the version \<open>v\<close>.\<close>

definition stamp :: "int \<Rightarrow> int \<Rightarrow> 'v document \<Rightarrow> 'v document" where
  "stamp now v d = d\<lparr>d_syncMeta := Some \<lparr>lastSyncAt = Some now, version = Some v\<rparr>\<rparr>"

text \<open>
  The version and the sync time of a document, 0 when the document has no \<open>_syncMeta\<close>
  or the \<open>_syncMeta\<close> lacks the number.
\<close>

definition doc_version :: "'v document \<Rightarrow> int" where
  "doc_version d =
     (case d_syncMeta d of
        None \<Rightarrow> 0
      | Some m \<Rightarrow> (case version m of None \<Rightarrow> 0 | Some n \<Rightarrow> n))"

definition doc_syncAt :: "'v document \<Rightarrow> int" where
  "doc_syncAt d =
     (case d_syncMeta d of
        None \<Rightarrow> 0
      | Some m \<Rightarrow> (case lastSyncAt m of None \<Rightarrow> 0 | Some n \<Rightarrow> n))"


definition snapshot_of :: "int \<times> 'v document \<Rightarrow> 'v snapshot" where
  "snapshot_of = (\<lambda>(t, d). \<lparr>timestamp = t, data = d\<rparr>)"



text \<open>
  The store holds the built-in functions at their addresses, and the properties of each
  can be read.
\<close>

definition builtins_ok :: "'v heap \<Rightarrow> bool" where
  "builtins_ok h =
     list_all (\<lambda>(k, a). case read_obj True h a of None \<Rightarrow> False | Some p \<Rightarrow> True) builtins"


text \<open>
  The object at \<open>a\<close> is a document whose profiles object (or the empty object, when it
  has none) has no property name twice, as is the case for every object.
\<close>

definition distinct_profile_names :: "'v heap \<Rightarrow> addr \<Rightarrow> bool" where
  "distinct_profile_names h a =
     (case get_doc h a of
        None \<Rightarrow> False
      | Some (pr, sm, ot) \<Rightarrow>
          (case profs_or_empty h pr of None \<Rightarrow> False | Some refs \<Rightarrow> distinct (map fst refs)))"

subsection \<open>Example documents\<close>

text \<open>Atomic JSON values, for the concrete documents below.\<close>

datatype jval = JNull | JBool bool | JNum int | JStr string

text \<open>
  Local profile \<open>Trip\<close>: \<open>itemX\<close> checked at time 200, \<open>itemY\<close> checked at time 50,
  dark style, a journey, synced at time 10.
\<close>

definition ex_lp :: "jval profile" where
  "ex_lp = \<lparr>checklistData = Some [(''itemX'', JBool True), (''itemY'', JBool True)],
            checklistTimestamps = Some [(''itemX'', 200), (''itemY'', 50)],
            syncMeta = Some \<lparr>lastSyncAt = Some 10, version = None\<rparr>,
            props = [(''style'', JStr ''dark''), (''journey'', JStr ''j1'')]\<rparr>"

text \<open>
  Remote profile \<open>Trip\<close>: \<open>itemX\<close> unchecked at time 100, \<open>itemY\<close> unchecked at time 70,
  light style and no journey, synced at time 20.
\<close>

definition ex_rp :: "jval profile" where
  "ex_rp = \<lparr>checklistData = Some [(''itemX'', JBool False), (''itemY'', JBool False)],
            checklistTimestamps = Some [(''itemX'', 100), (''itemY'', 70)],
            syncMeta = Some \<lparr>lastSyncAt = Some 20, version = None\<rparr>,
            props = [(''style'', JStr ''light'')]\<rparr>"

text \<open>A profile that exists only remotely.\<close>

definition ex_trip2 :: "jval profile" where
  "ex_trip2 = \<lparr>checklistData = Some [(''itemZ'', JBool True)],
               checklistTimestamps = None,
               syncMeta = None,
               props = [(''style'', JStr ''light'')]\<rparr>"

definition ex_local :: "jval document" where
  "ex_local = \<lparr>profiles = Some [(''Trip'', ex_lp)],
               d_syncMeta = Some \<lparr>lastSyncAt = Some 10, version = Some 3\<rparr>,
               others = [(''current'', JStr ''Trip'')]\<rparr>"

definition ex_remote :: "jval document" where
  "ex_remote = \<lparr>profiles = Some [(''Trip'', ex_rp), (''Trip2'', ex_trip2)],
                d_syncMeta = Some \<lparr>lastSyncAt = Some 20, version = Some 5\<rparr>,
                others = [(''current'', JStr ''Trip2'')]\<rparr>"

text \<open>
  A remote profile \<open>Trip\<close> with three items, each with a timestamp: \<open>itemY\<close>
  unchecked at time 70, \<open>itemN\<close> checked at time 5, and an item whose id is
  \<open>toString\<close>, checked at time 200. The local profile \<open>ex_lp\<close> has no timestamp for
  \<open>itemN\<close> and none for \<open>toString\<close>.
\<close>

definition ex_rp_inherited :: "jval profile" where
  "ex_rp_inherited =
     \<lparr>checklistData = Some [(''itemY'', JBool False), (''itemN'', JBool True),
                             (''toString'', JBool True)],
      checklistTimestamps = Some [(''itemY'', 70), (''itemN'', 5), (''toString'', 200)],
      syncMeta = None,
      props = []\<rparr>"

definition ex_remote_inherited :: "jval document" where
  "ex_remote_inherited = \<lparr>profiles = Some [(''Trip'', ex_rp_inherited)],
                          d_syncMeta = Some \<lparr>lastSyncAt = Some 20, version = Some 5\<rparr>,
                          others = []\<rparr>"

text \<open>
  A remote document with two profiles that \<open>ex_local\<close> lacks, one of them named
  \<open>constructor\<close>.
\<close>

definition ex_remote_constructor :: "jval document" where
  "ex_remote_constructor =
     \<lparr>profiles = Some [(''constructor'', ex_trip2), (''Trip2'', ex_trip2)],
      d_syncMeta = Some \<lparr>lastSyncAt = Some 20, version = Some 5\<rparr>,
      others = []\<rparr>"


text \<open>A provider that has not looked for its file yet.\<close>

definition ex_provider :: provider where
  "ex_provider = \<lparr>accessToken = Some ''token'', tokenExpiry = 3600000, fileId = None\<rparr>"


text \<open>
  A coordinator with an active provider and an edit waiting: \<open>ex_local\<close> in jStorage,
  nothing in flight.
\<close>

definition ex_coord :: "jval coordinator" where
  "ex_coord = \<lparr>activeProvider = Some ex_provider, pendingChanges = True,
               currentState = Pending, lastSyncTime = None, lastErrorMsg = [],
               jStorage = Some ex_local, window_profiles = Some ex_local,
               versionHistory = Missing, inflight = [], completions = []\<rparr>"

text \<open>
  Two cycles that overlap. A push cycle starts at time 500; while its push is in
  flight a pull-and-merge cycle starts; the pull delivers \<open>ex_remote\<close> and the merge
  happens at time 600; the push of the merged document succeeds; then the push of the
  first cycle succeeds.
\<close>

definition ex_push_started :: "jval coordinator" where
  "ex_push_started = doSync 500 ex_coord"





text \<open>
  An upload that Drive refuses: the status is 401 and the body is the JSON error object,
  which has no \<open>id\<close>.
\<close>

definition ex_refused :: "upload_result response" where
  "ex_refused = \<lparr>ok = False, json = Resolved (Some \<lparr>result_id = None\<rparr>)\<rparr>"

text \<open>Eleven pushes of \<open>ex_local\<close>, at times 1 to 11.\<close>

definition ex_pushes :: "(int \<times> jval document) list" where
  "ex_pushes = [(1, ex_local), (2, ex_local), (3, ex_local), (4, ex_local), (5, ex_local),
     (6, ex_local), (7, ex_local), (8, ex_local), (9, ex_local), (10, ex_local), (11, ex_local)]"

text \<open>
  A store with the eleven built-in functions, none of which has a property yet, that
  holds \<open>ex_local\<close> (the document object at address 15) and \<open>ex_remote\<close> (at address
  22).
\<close>

definition ex_builtins :: "jval heap" where
  "ex_builtins = replicate 11 (FunCell None None None [])"

definition ex_heap :: "jval heap" where
  "ex_heap = fst (alloc_document ex_remote (fst (alloc_document ex_local ex_builtins)))"

text \<open>
  The same with \<open>ex_remote_constructor\<close> for the remote document (at address 21).
\<close>

definition ex_heap_constructor :: "jval heap" where
  "ex_heap_constructor =
     fst (alloc_document ex_remote_constructor (fst (alloc_document ex_local ex_builtins)))"

section \<open>Properties of the merge\<close>

subsection \<open>Objects as association lists\<close>

lemma or_empty_simps [simp]: "or_empty None = []" "or_empty (Some ob) = ob"
  by (simp_all add: or_empty_def)

lemma or0_simps [simp]: "or0 None = 0" "or0 (Some n) = n"
  by (simp_all add: or0_def)

lemma update_fresh_append:
  "k \<notin> fst ` set al \<Longrightarrow> AList.update k v al = al @ [(k, v)]"
  by (induction al) auto

lemma fold_update_distinct:
  "distinct (map fst (acc @ src)) \<Longrightarrow>
   fold (\<lambda>(k, v) target. AList.update k v target) src acc = acc @ src"
proof (induction src arbitrary: acc)
  case Nil
  then show ?case by simp
next
  case (Cons a src)
  obtain k v where a: "a = (k, v)" by (cases a)
  from Cons.prems a have fresh: "k \<notin> fst ` set acc" by auto
  from Cons.prems a have "distinct (map fst ((acc @ [(k, v)]) @ src))" by auto
  from Cons.IH [OF this] fresh a show ?case
    by (simp add: update_fresh_append)
qed

lemma extend_new_wf: "wf_obj src \<Longrightarrow> extend_new src = src"
  using fold_update_distinct [of "[]" src] by (simp add: extend_new_def wf_obj_def)

subsection \<open>Inherited names\<close>

lemma ts_lookup_own [simp]: "map_of ts k = Some n \<Longrightarrow> ts_lookup ts k = Some n"
  by (simp add: ts_lookup_def)

lemma ts_lookup_plain:
  "\<not> inherited k \<Longrightarrow> ts_lookup ts k = Some (case map_of ts k of None \<Rightarrow> 0 | Some n \<Rightarrow> n)"
  by (simp add: ts_lookup_def split: option.splits)

lemma ts_lookup_inherited: "inherited k \<Longrightarrow> map_of ts k = None \<Longrightarrow> ts_lookup ts k = None"
  by (simp add: ts_lookup_def)


lemma js_in_plain: "\<not> inherited k \<Longrightarrow> js_in k ob \<longleftrightarrow> map_of ob k \<noteq> None"
  by (simp add: js_in_def)

lemma map_of_js_set:
  "map_of (js_set k v ob) i =
     (if k = i \<and> (k = ''__proto__'' \<longrightarrow> map_of ob k \<noteq> None) then Some v else map_of ob i)"
  by (auto simp: js_set_def update_conv')

lemma map_of_js_set_other: "i \<noteq> ''__proto__'' \<Longrightarrow>
   map_of (js_set k v ob) i = (if k = i then Some v else map_of ob i)"
  by (auto simp: map_of_js_set)

subsection \<open>The item loop\<close>

lemma fold_merge_item_data:
  "distinct (map fst items) \<Longrightarrow> i \<noteq> ''__proto__'' \<Longrightarrow>
   map_of (fst (fold (merge_item lts rts) items (md, mt))) i =
     (case map_of items i of
        None \<Rightarrow> map_of md i
      | Some rv \<Rightarrow>
          (case (ts_lookup rts i, ts_lookup lts i) of
             (Some rt, Some lt) \<Rightarrow> if rt > lt then Some rv else map_of md i
           | _ \<Rightarrow> map_of md i))"
proof (induction items arbitrary: md mt)
  case Nil
  then show ?case by simp
next
  case (Cons a items)
  obtain k v where a: "a = (k, v)" by (cases a)
  from Cons.prems a have k: "map_of items k = None" and d: "distinct (map fst items)"
    by (auto simp: map_of_eq_None_iff)
  show ?case
    using Cons.IH [OF d Cons.prems(2)] a k Cons.prems(2)
    by (auto simp: merge_item_def map_of_js_set_other split: option.splits)
qed

lemma fold_merge_item_ts:
  "distinct (map fst items) \<Longrightarrow> i \<noteq> ''__proto__'' \<Longrightarrow>
   map_of (snd (fold (merge_item lts rts) items (md, mt))) i =
     (case map_of items i of
        None \<Rightarrow> map_of mt i
      | Some rv \<Rightarrow>
          (case (ts_lookup rts i, ts_lookup lts i) of
             (Some rt, Some lt) \<Rightarrow> if rt > lt then Some rt else map_of mt i
           | _ \<Rightarrow> map_of mt i))"
proof (induction items arbitrary: md mt)
  case Nil
  then show ?case by simp
next
  case (Cons a items)
  obtain k v where a: "a = (k, v)" by (cases a)
  from Cons.prems a have k: "map_of items k = None" and d: "distinct (map fst items)"
    by (auto simp: map_of_eq_None_iff)
  show ?case
    using Cons.IH [OF d Cons.prems(2)] a k Cons.prems(2)
    by (auto simp: merge_item_def map_of_js_set_other split: option.splits)
qed


subsection \<open>The non-mergeable fields\<close>

lemma copy_field_frame:
  "checklistData (copy_field rp k lp) = checklistData lp"
  "checklistTimestamps (copy_field rp k lp) = checklistTimestamps lp"
  "syncMeta (copy_field rp k lp) = syncMeta lp"
  by (simp_all add: copy_field_def split: option.splits)

lemma fold_copy_field_frame:
  "checklistData (fold (copy_field rp) ks lp) = checklistData lp"
  "checklistTimestamps (fold (copy_field rp) ks lp) = checklistTimestamps lp"
  "syncMeta (fold (copy_field rp) ks lp) = syncMeta lp"
  by (induction ks arbitrary: lp) (simp_all add: copy_field_frame)


subsection \<open>One profile\<close>

lemma merge_profile_data:
  "checklistData (merge_profile lp rp) =
     Some (fst (fold (merge_item (or_empty (checklistTimestamps lp)) (or_empty (checklistTimestamps rp)))
                  (or_empty (checklistData rp))
                  (extend_new (or_empty (checklistData lp)), extend_new (or_empty (checklistTimestamps lp)))))"
  by (simp add: merge_profile_def Let_def fold_copy_field_frame split: prod.splits)

lemma merge_profile_ts:
  "checklistTimestamps (merge_profile lp rp) =
     Some (snd (fold (merge_item (or_empty (checklistTimestamps lp)) (or_empty (checklistTimestamps rp)))
                  (or_empty (checklistData rp))
                  (extend_new (or_empty (checklistData lp)), extend_new (or_empty (checklistTimestamps lp)))))"
  by (simp add: merge_profile_def Let_def fold_copy_field_frame split: prod.splits)



subsection \<open>The profile loop\<close>

lemma fold_each_profile:
  "distinct (map fst rps) \<Longrightarrow>
   map_of (fold each_profile rps mp) p =
     (case map_of rps p of
        None \<Rightarrow> map_of mp p
      | Some rp \<Rightarrow>
          (case map_of mp p of
             None \<Rightarrow> if inherited p then None else Some rp
           | Some lp \<Rightarrow> Some (merge_profile lp rp)))"
proof (induction rps arbitrary: mp)
  case Nil
  then show ?case by simp
next
  case (Cons a rps)
  obtain k v where a: "a = (k, v)" by (cases a)
  from Cons.prems a have k: "map_of rps k = None" and d: "distinct (map fst rps)"
    by (auto simp: map_of_eq_None_iff)
  show ?case
    using Cons.IH [OF d] a k
    by (auto simp: each_profile_def js_in_def update_conv' split: option.splits)
qed

lemma mergeProfiles_profile:
  assumes "wf_document remote"
  shows "map_of (or_empty (profiles (mergeProfiles local (Some remote)))) p =
     (case map_of (or_empty (profiles remote)) p of
        None \<Rightarrow> map_of (or_empty (profiles local)) p
      | Some rp \<Rightarrow> (case map_of (or_empty (profiles local)) p of
                     None \<Rightarrow> if inherited p then None else Some rp
                   | Some lp \<Rightarrow> Some (merge_profile lp rp)))"
proof -
  from assms have "distinct (map fst (or_empty (profiles remote)))"
    by (simp add: wf_document_def wf_obj_def)
  from fold_each_profile [OF this] show ?thesis
    by (simp add: mergeProfiles_def deep_copy_def Let_def)
qed

lemma wf_document_profile:
  assumes "wf_document d" and "map_of (or_empty (profiles d)) p = Some pr"
  shows "wf_profile pr"
proof -
  from assms(2) have "(p, pr) \<in> set (or_empty (profiles d))" by (rule map_of_SomeD)
  with assms(1) show ?thesis
    by (auto simp: wf_document_def list_all_iff)
qed


subsection \<open>Merging a document with itself\<close>






section \<open>The claims about the merge\<close>

text \<open>
  The rule of the item loop for an item id that is not the name of a property of
  \<open>Object.prototype\<close>. For a profile present in both documents and such an item id of
  the remote profile's \<open>checklistData\<close>, with \<open>rt\<close> the remote and \<open>lt\<close> the local
  timestamp of the item (0 when absent): if \<open>rt > lt\<close> the merged profile has the
  remote value and the timestamp \<open>rt\<close> for the item; otherwise it has what the local
  profile has for the item, value and timestamp. In both cases the merged timestamp (0
  when absent) is \<open>max lt rt\<close>.
\<close>

lemma last_writer_wins_plain_names:
  assumes "wf_document local" and "wf_document remote"
    and "map_of (or_empty (profiles local)) p = Some lp"
    and "map_of (or_empty (profiles remote)) p = Some rp"
    and "map_of (or_empty (checklistData rp)) i = Some rVal"
    and "\<not> inherited i"
  shows "\<exists>mp. map_of (or_empty (profiles (mergeProfiles local (Some remote)))) p = Some mp \<and>
     (let rt = (case map_of (or_empty (checklistTimestamps rp)) i of None \<Rightarrow> 0 | Some n \<Rightarrow> n);
          lt = (case map_of (or_empty (checklistTimestamps lp)) i of None \<Rightarrow> 0 | Some n \<Rightarrow> n);
          mergedData = or_empty (checklistData mp);
          mergedTs = or_empty (checklistTimestamps mp)
      in (map_of mergedData i, map_of mergedTs i) =
           (if rt > lt then (Some rVal, Some rt)
            else (map_of (or_empty (checklistData lp)) i,
                  map_of (or_empty (checklistTimestamps lp)) i))
         \<and> (case map_of mergedTs i of None \<Rightarrow> 0 | Some n \<Rightarrow> n) = max lt rt)"
proof -
  have mp: "map_of (or_empty (profiles (mergeProfiles local (Some remote)))) p
              = Some (merge_profile lp rp)"
    using mergeProfiles_profile [OF assms(2), of local p] assms(3,4) by simp
  have wfl: "wf_profile lp" using assms(1,3) by (rule wf_document_profile)
  have wfr: "wf_profile rp" using assms(2,4) by (rule wf_document_profile)
  from wfr have d: "distinct (map fst (or_empty (checklistData rp)))"
    by (simp add: wf_profile_def wf_obj_def)
  from wfl have el: "extend_new (or_empty (checklistData lp)) = or_empty (checklistData lp)"
    "extend_new (or_empty (checklistTimestamps lp)) = or_empty (checklistTimestamps lp)"
    by (simp_all add: wf_profile_def extend_new_wf)
  from assms(6) have np: "i \<noteq> ''__proto__''" by (auto simp: inherited_def)
  let ?rt = "case map_of (or_empty (checklistTimestamps rp)) i of None \<Rightarrow> 0 | Some n \<Rightarrow> n"
  let ?lt = "case map_of (or_empty (checklistTimestamps lp)) i of None \<Rightarrow> 0 | Some n \<Rightarrow> n"
  have "map_of (or_empty (checklistData (merge_profile lp rp))) i =
          (if ?rt > ?lt then Some rVal else map_of (or_empty (checklistData lp)) i)"
    using fold_merge_item_data [OF d np] assms(5)
    by (simp add: merge_profile_data el ts_lookup_plain [OF assms(6)])
  moreover have "map_of (or_empty (checklistTimestamps (merge_profile lp rp))) i =
          (if ?rt > ?lt then Some ?rt else map_of (or_empty (checklistTimestamps lp)) i)"
    using fold_merge_item_ts [OF d np] assms(5)
    by (simp add: merge_profile_ts el ts_lookup_plain [OF assms(6)])
  ultimately show ?thesis using mp by (auto simp: Let_def split: option.splits)
qed

text \<open>
  C1 holds for the item ids covered by the lemma above, but not for every item id. The
  remote profile \<open>ex_rp_inherited\<close> has the item \<open>toString\<close> with the timestamp 200 and
  the local profile \<open>ex_lp\<close> has no timestamp for it, so the claim asks for the remote
  value and the timestamp 200. The code reads \<open>localTs['toString']\<close>, finds the function
  that every object inherits, and \<open>200 > function\<close> is false: the merged profile has
  neither the value nor the timestamp of the item. The items \<open>itemY\<close> (70 against 50)
  and \<open>itemN\<close> (5 against no local timestamp) of the same profile are adopted.
\<close>

theorem merge_item_inherited_name:
  "map_of (or_empty (checklistData ex_rp_inherited)) ''toString'' = Some (JBool True)
   \<and> map_of (or_empty (checklistTimestamps ex_rp_inherited)) ''toString'' = Some 200
   \<and> map_of (or_empty (checklistTimestamps ex_lp)) ''toString'' = None
   \<and> mergeProfiles ex_local (Some ex_remote_inherited) =
       ex_local\<lparr>profiles := Some [(''Trip'',
         ex_lp\<lparr>checklistData :=
                 Some [(''itemX'', JBool True), (''itemY'', JBool False), (''itemN'', JBool True)],
               checklistTimestamps :=
                 Some [(''itemX'', 200), (''itemY'', 70), (''itemN'', 5)]\<rparr>)]\<rparr>"
  by (simp add: mergeProfiles_def each_profile_def merge_profile_def merge_item_def
      extend_new_def syncAt_def deep_copy_def js_in_def js_set_def ts_lookup_def inherited_def
      object_prototype_functions_def
      ex_local_def ex_remote_inherited_def ex_lp_def ex_rp_inherited_def Let_def)




text \<open>
  With a non-null remote, a profile that the remote document has and the local document
  lacks is, in the merged document, the remote profile unchanged, when its name is not
  the name of a property of \<open>Object.prototype\<close>.
\<close>

lemma remote_only_profile_plain_name:
  assumes "wf_document remote"
    and "map_of (or_empty (profiles remote)) p = Some rp"
    and "map_of (or_empty (profiles local)) p = None"
    and "\<not> inherited p"
  shows "map_of (or_empty (profiles (mergeProfiles local (Some remote)))) p = Some rp"
  using mergeProfiles_profile [OF assms(1), of local p] assms(2,3,4) by simp

text \<open>
  C3 holds for the profile names covered by the lemma above, but not for every name. The
  remote document \<open>ex_remote_constructor\<close> has the profiles \<open>constructor\<close> and \<open>Trip2\<close>,
  and the local document \<open>ex_local\<close> has neither. \<open>Trip2\<close> is adopted. For
  \<open>constructor\<close> the test \<open>profileName in mergedProfs\<close> is true by inheritance, so the
  code takes the inherited function for the local profile and merges into it: the merged
  document has no profile \<open>constructor\<close>.
\<close>

theorem remote_only_inherited_name_dropped:
  "map_of (or_empty (profiles ex_remote_constructor)) ''constructor'' = Some ex_trip2
   \<and> map_of (or_empty (profiles ex_local)) ''constructor'' = None
   \<and> mergeProfiles ex_local (Some ex_remote_constructor) =
       ex_local\<lparr>profiles := Some [(''Trip'', ex_lp), (''Trip2'', ex_trip2)]\<rparr>
   \<and> map_of (or_empty (profiles (mergeProfiles ex_local (Some ex_remote_constructor))))
         ''constructor'' = None"
  by (simp add: mergeProfiles_def each_profile_def deep_copy_def js_in_def inherited_def
      object_prototype_functions_def ex_local_def ex_remote_constructor_def Let_def)




section \<open>The claims about the coordinator and the provider\<close>

subsection \<open>Calls that settle\<close>

lemma settle_at:
  assumes "i < length (inflight st)"
  shows "settle i outcome st =
     (case (inflight st ! i, outcome) of
        (PushReq d, PushOk t1 t2) \<Rightarrow>
          doSync_then t1 t2 d (st\<lparr>inflight := take i (inflight st) @ drop (Suc i) (inflight st)\<rparr>)
      | (PushReq d, PushFailed e) \<Rightarrow>
          doSync_catch e (st\<lparr>inflight := take i (inflight st) @ drop (Suc i) (inflight st)\<rparr>)
      | (PullReq, PullOk rd t0 now) \<Rightarrow>
          doPullAndMerge_then t0 now rd
            (st\<lparr>inflight := take i (inflight st) @ drop (Suc i) (inflight st)\<rparr>)
      | (PullReq, PullFailed e) \<Rightarrow>
          doPullAndMerge_catch e (st\<lparr>inflight := take i (inflight st) @ drop (Suc i) (inflight st)\<rparr>)
      | (MergePushReq d c, PushOk t1 t2) \<Rightarrow>
          mergePush_then t1 t2 d c
            (st\<lparr>inflight := take i (inflight st) @ drop (Suc i) (inflight st)\<rparr>)
      | (MergePushReq d c, PushFailed e) \<Rightarrow>
          mergePush_catch e (st\<lparr>inflight := take i (inflight st) @ drop (Suc i) (inflight st)\<rparr>)
      | _ \<Rightarrow> st)"
  using assms by (simp add: settle_def Let_def)

lemma doc_version_meta: "metaVersion (d_syncMeta d) = doc_version d"
  by (simp add: metaVersion_def doc_version_def or0_def split: option.splits)

lemma doc_syncAt_meta: "syncAt (d_syncMeta d) = doc_syncAt d"
  by (simp add: syncAt_def doc_syncAt_def or0_def split: option.splits)


lemma doSync_starts:
  assumes "activeProvider st \<noteq> None" and "currentState st \<noteq> Syncing"
    and "jStorage st = Some d"
  shows "doSync now st =
           st\<lparr>currentState := Syncing,
              inflight := inflight st @ [PushReq (stamp now (doc_version d + 1) d)]\<rparr>"
  using assms
  by (simp add: doSync_def setState_def jStorage_get_def stamp_def doc_version_meta Let_def)


text \<open>
  When the provider is gone by the time the pull delivers a document, the merged
  document is stored all the same, nothing is pushed, and the state is \<open>error\<close>.
\<close>

lemma doPullAndMerge_then_no_provider:
  assumes "activeProvider st = None" and "jStorage st = Some d"
  shows "doPullAndMerge_then t0 now (Some rd) st =
     (let newer = (doc_syncAt rd > doc_syncAt d);
          merged = stamp now (max (doc_version d) (doc_version rd) + 1)
                     (if newer then mergeProfiles d (Some rd) else d)
      in st\<lparr>jStorage := Some merged, window_profiles := Some merged,
            lastErrorMsg := ''activeProvider is null'', currentState := Error,
            completions := completions st @ [False]\<rparr>)"
  using assms
  by (auto simp: doPullAndMerge_then_def doPullAndMerge_catch_def null_provider_error_def
      or_msg_def setState_def jStorage_get_def Let_def stamp_def doc_version_meta doc_syncAt_meta)

text \<open>
  Such a state is reached when the sync is deactivated while a pull is in flight: the
  pull then delivers \<open>ex_remote\<close> to a coordinator without a provider.
\<close>

lemma pull_settles_after_deactivate:
  "settle 0 (PullOk (Some ex_remote) 0 600) (deactivate (doPullAndMerge ex_coord)) =
     ex_coord\<lparr>activeProvider := None, pendingChanges := False, currentState := Error,
       lastErrorMsg := ''activeProvider is null'',
       jStorage := Some (stamp 600 6 (mergeProfiles ex_local (Some ex_remote))),
       window_profiles := Some (stamp 600 6 (mergeProfiles ex_local (Some ex_remote))),
       completions := [False]\<rparr>"
proof -
  have s: "deactivate (doPullAndMerge ex_coord) =
      ex_coord\<lparr>activeProvider := None, pendingChanges := False, currentState := Inactive,
        inflight := [PullReq]\<rparr>"
    by (simp add: deactivate_def doPullAndMerge_def setState_def Let_def ex_coord_def)
  have p: "activeProvider (ex_coord\<lparr>activeProvider := None, pendingChanges := False,
              currentState := Inactive, inflight := []\<rparr>) = None"
    and j: "jStorage (ex_coord\<lparr>activeProvider := None, pendingChanges := False,
              currentState := Inactive, inflight := []\<rparr>) = Some ex_local"
    by (simp_all add: ex_coord_def)
  have v: "doc_version ex_local = 3" "doc_version ex_remote = 5"
    "doc_syncAt ex_local = 10" "doc_syncAt ex_remote = 20"
    by (simp_all add: doc_version_def doc_syncAt_def ex_local_def ex_remote_def)
  show ?thesis
    unfolding s
    by (simp add: settle_at doPullAndMerge_then_no_provider [OF p j] v Let_def)
       (simp add: ex_coord_def)
qed

subsection \<open>Two cycles that overlap\<close>

lemma ex_push_started:
  "ex_push_started =
     ex_coord\<lparr>currentState := Syncing, inflight := [PushReq (stamp 500 4 ex_local)]\<rparr>"
  by (simp add: ex_push_started_def doSync_def setState_def jStorage_get_def metaVersion_def
      stamp_def Let_def ex_coord_def ex_local_def)





subsection \<open>Versions\<close>





subsection \<open>History\<close>

lemma loadHistory_save:
  "loadHistory (saveVersionSnapshot now d item) =
     take MAX_HISTORY (\<lparr>timestamp = now, data = d\<rparr> # loadHistory item)"
  by (simp add: saveVersionSnapshot_def loadHistory_def Let_def)

lemma take_Cons_take: "0 < n \<Longrightarrow> take n (x # take n xs) = take n (x # xs)"
  by (cases n) (simp_all add: min_def)

lemma save_all_snoc:
  "save_all (pushes @ [p]) item = saveVersionSnapshot (fst p) (snd p) (save_all pushes item)"
  by (simp add: save_all_def split: prod.splits)

lemma loadHistory_save_all:
  "pushes \<noteq> [] \<Longrightarrow>
   loadHistory (save_all pushes item) =
     take MAX_HISTORY (rev (map snapshot_of pushes) @ loadHistory item)"
proof (induction pushes rule: rev_induct)
  case Nil
  then show ?case by simp
next
  case (snoc p pushes)
  show ?case
  proof (cases "pushes = []")
    case True
    then show ?thesis
      by (simp add: save_all_def loadHistory_save snapshot_of_def split: prod.splits)
  next
    case False
    with snoc.IH have ih: "loadHistory (save_all pushes item) =
        take MAX_HISTORY (rev (map snapshot_of pushes) @ loadHistory item)" by simp
    have "loadHistory (save_all (pushes @ [p]) item) =
            take MAX_HISTORY (snapshot_of p # loadHistory (save_all pushes item))"
      by (simp add: save_all_snoc loadHistory_save snapshot_of_def split_beta)
    also have "\<dots> = take MAX_HISTORY (snapshot_of p # rev (map snapshot_of pushes) @ loadHistory item)"
      unfolding ih by (rule take_Cons_take) (simp add: MAX_HISTORY_def)
    finally show ?thesis by simp
  qed
qed

text \<open>
  C7. Each successful push (of either kind of cycle) prepends its snapshot to the
  history and keeps the first 10 entries. After 10 or more successful pushes the history
  is exactly the snapshots of the last 10 pushes, the newest first, whatever was stored
  before; when the clock readings of the pushes do not decrease, the timestamps of the
  history do not increase.
\<close>

theorem history_capped_newest_first:
  "getHistory (doSync_then t1 t2 d st) =
     take 10 (\<lparr>timestamp = t1, data = d\<rparr> # getHistory st)
   \<and> getHistory (mergePush_then t1 t2 d c st) =
     take 10 (\<lparr>timestamp = t1, data = d\<rparr> # getHistory st)
   \<and> (length pushes \<ge> 10 \<longrightarrow>
        loadHistory (save_all pushes item) = take 10 (rev (map snapshot_of pushes))
        \<and> length (loadHistory (save_all pushes item)) = 10
        \<and> (sorted (map fst pushes) \<longrightarrow>
             sorted (rev (map timestamp (loadHistory (save_all pushes item))))))"
proof (intro conjI impI)
  show "getHistory (doSync_then t1 t2 d st) =
          take 10 (\<lparr>timestamp = t1, data = d\<rparr> # getHistory st)"
    by (simp add: getHistory_def doSync_then_def setState_def Let_def loadHistory_save
        MAX_HISTORY_def)
  show "getHistory (mergePush_then t1 t2 d c st) =
          take 10 (\<lparr>timestamp = t1, data = d\<rparr> # getHistory st)"
    by (simp add: getHistory_def mergePush_then_def setState_def Let_def loadHistory_save
        MAX_HISTORY_def)
next
  assume len: "10 \<le> length pushes"
  then have ne: "pushes \<noteq> []" by auto
  from loadHistory_save_all [OF ne, of item] len
  show eq: "loadHistory (save_all pushes item) = take 10 (rev (map snapshot_of pushes))"
    by (simp add: MAX_HISTORY_def)
  from eq len show "length (loadHistory (save_all pushes item)) = 10" by simp
  assume srt: "sorted (map fst pushes)"
  have ts: "map timestamp (map snapshot_of pushes) = map fst pushes"
    by (simp add: snapshot_of_def split_beta)
  have "rev (map timestamp (loadHistory (save_all pushes item))) =
          rev (take 10 (rev (map timestamp (map snapshot_of pushes))))"
    unfolding eq by (simp only: take_map rev_map)
  also have "\<dots> = drop (length pushes - 10) (map fst pushes)"
    unfolding ts by (simp add: take_rev)
  finally have "rev (map timestamp (loadHistory (save_all pushes item))) =
          drop (length pushes - 10) (map fst pushes)" .
  with srt show "sorted (rev (map timestamp (loadHistory (save_all pushes item))))"
    by (simp add: sorted_wrt_drop)
qed

theorem history_capped_newest_first_witness:
  "length ex_pushes \<ge> 10 \<and> sorted (map fst ex_pushes)
   \<and> loadHistory (save_all ex_pushes Unparseable) = take 10 (rev (map snapshot_of ex_pushes))
   \<and> length (loadHistory (save_all ex_pushes (Unparseable :: jval history_item))) = 10
   \<and> sorted (rev (map timestamp (loadHistory (save_all ex_pushes Unparseable))))"
proof -
  have h1: "length ex_pushes \<ge> 10" by (simp add: ex_pushes_def)
  have h2: "sorted (map fst ex_pushes)" by (simp add: ex_pushes_def)
  note c = history_capped_newest_first [THEN conjunct2, THEN conjunct2, rule_format, OF h1,
      where item = "Unparseable :: jval history_item"]
  show ?thesis
    by (rule conjI [OF h1 conjI [OF h2 conjI [OF conjunct1 [OF c]
         conjI [OF conjunct1 [OF conjunct2 [OF c]] mp [OF conjunct2 [OF conjunct2 [OF c]] h2]]]]])
qed


subsection \<open>What pull returns\<close>




subsection \<open>The guard on the state\<close>

text \<open>
  C8, as stated, fails: after \<open>doSync\<close> the state is \<open>syncing\<close> with a push in flight, and
  a \<open>doPullAndMerge\<close> that arrives then is not a no-op: it starts a pull, so two cycles
  are in flight.
\<close>

theorem pull_while_syncing_counterexample:
  "currentState (doSync 500 ex_coord) = Syncing
   \<and> inflight (doSync 500 ex_coord) = [PushReq (stamp 500 4 ex_local)]
   \<and> inflight (doPullAndMerge (doSync 500 ex_coord)) = [PushReq (stamp 500 4 ex_local), PullReq]
   \<and> doPullAndMerge (doSync 500 ex_coord) \<noteq> doSync 500 ex_coord"
proof -
  have s: "doSync 500 ex_coord =
      ex_coord\<lparr>currentState := Syncing, inflight := [PushReq (stamp 500 4 ex_local)]\<rparr>"
    by (simp add: doSync_def setState_def jStorage_get_def metaVersion_def stamp_def Let_def
        ex_coord_def ex_local_def)
  have p: "inflight (doPullAndMerge (doSync 500 ex_coord)) = [PushReq (stamp 500 4 ex_local), PullReq]"
    unfolding s by (simp add: doPullAndMerge_def setState_def Let_def ex_coord_def)
  have "inflight (doPullAndMerge (doSync 500 ex_coord)) \<noteq> inflight (doSync 500 ex_coord)"
    unfolding p unfolding s by simp
  then have "doPullAndMerge (doSync 500 ex_coord) \<noteq> doSync 500 ex_coord" by auto
  with s p show ?thesis by simp
qed

text \<open>
  C8, amended. A \<open>doSync\<close> request that arrives while the state is \<open>syncing\<close> (or while
  no provider is active) changes nothing. A \<open>doPullAndMerge\<close> request changes nothing,
  apart from reporting \<open>false\<close> to its callback, when no provider is active.
\<close>

theorem doSync_noop_while_syncing:
  "(activeProvider st = None \<or> currentState st = Syncing \<longrightarrow> doSync now st = st)
   \<and> (activeProvider st = None \<longrightarrow>
        doPullAndMerge st = st\<lparr>completions := completions st @ [False]\<rparr>)"
  by (simp add: doSync_def doPullAndMerge_def setState_def Let_def)

theorem doSync_noop_while_syncing_witness:
  "currentState (doSync 500 ex_coord) = Syncing
   \<and> doSync 900 (doSync 500 ex_coord) = doSync 500 ex_coord"
proof -
  have h: "currentState (doSync 500 ex_coord) = Syncing"
    by (simp add: doSync_def setState_def Let_def ex_coord_def)
  have "doSync 900 (doSync 500 ex_coord) = doSync 500 ex_coord"
    by (rule doSync_noop_while_syncing [THEN conjunct1, rule_format, OF disjI2 [OF h]])
  with h show ?thesis by (rule conjI)
qed

text \<open>
  The guard also stops the \<open>doSync\<close> that the pull callback calls when the cloud holds
  nothing: the state is still \<open>syncing\<close> from \<open>doPullAndMerge\<close>, so nothing is pushed
  and the state stays \<open>syncing\<close> until the next change is notified.
\<close>

lemma pull_null_pushes_nothing:
  assumes "currentState st = Syncing"
  shows "doPullAndMerge_then t0 now None st = st\<lparr>completions := completions st @ [False]\<rparr>"
  using assms by (simp add: doPullAndMerge_then_def doSync_def Let_def)

subsection \<open>A push that fails\<close>

text \<open>
  When the promise of the push of a push cycle is rejected (no token, no network, a
  response whose body is not JSON), the \<open>catch\<close> callback records the error's message
  (\<open>Unknown error\<close> when it has none or an empty one) and sets the state \<open>error\<close>; the
  pending flag, the stored document and the provider stay as they are. A \<open>doSync\<close> that
  starts afterwards reads the stored document and uploads it with the next version.
\<close>

lemma push_rejected_keeps_pending:
  assumes "i < length (inflight st)" and "inflight st ! i = PushReq pushed"
  shows "settle i (PushFailed err) st =
     st\<lparr>inflight := take i (inflight st) @ drop (Suc i) (inflight st),
        lastErrorMsg := (case message err of
                           None \<Rightarrow> ''Unknown error''
                         | Some s \<Rightarrow> if s = [] then ''Unknown error'' else s),
        currentState := Error\<rparr>"
  using assms
  by (simp add: settle_at doSync_catch_def setState_def or_msg_def split: option.splits)

lemma push_rejected_then_retry:
  assumes "activeProvider st \<noteq> None" and "jStorage st = Some d"
    and "i < length (inflight st)" and "inflight st ! i = PushReq pushed"
  shows "doSync later (settle i (PushFailed err) st) =
     (settle i (PushFailed err) st)\<lparr>currentState := Syncing,
        inflight := take i (inflight st) @ drop (Suc i) (inflight st)
                      @ [PushReq (stamp later (doc_version d + 1) d)]\<rparr>"
proof -
  let ?st' = "settle i (PushFailed err) st"
  have e: "?st' = st\<lparr>inflight := take i (inflight st) @ drop (Suc i) (inflight st),
        lastErrorMsg := (case message err of
                           None \<Rightarrow> ''Unknown error''
                         | Some s \<Rightarrow> if s = [] then ''Unknown error'' else s),
        currentState := Error\<rparr>"
    using assms(3,4) by (rule push_rejected_keeps_pending)
  have "activeProvider ?st' \<noteq> None" "currentState ?st' \<noteq> Syncing" "jStorage ?st' = Some d"
    using assms(1,2) by (simp_all add: e)
  from doSync_starts [OF this, of later] show ?thesis
    by (simp add: e)
qed

lemma push_rejected_example:
  "settle 0 (PushFailed (JsError (Some ''Failed to fetch''))) ex_push_started =
     ex_coord\<lparr>lastErrorMsg := ''Failed to fetch'', currentState := Error\<rparr>
   \<and> settle 0 (PushFailed (JsError None)) ex_push_started =
     ex_coord\<lparr>lastErrorMsg := ''Unknown error'', currentState := Error\<rparr>
   \<and> pendingChanges ex_coord = True"
  by (simp add: ex_push_started settle_at doSync_catch_def setState_def or_msg_def)
     (simp add: ex_coord_def)

text \<open>
  C9 holds for a push whose promise is rejected, but not for every push that fails. When
  Drive refuses the upload (here with the status 401 and a JSON error body), \<open>push\<close>
  does not test \<open>r.ok\<close>, as \<open>pull\<close> does: it reads the body, finds no \<open>id\<close>, and its
  promise is resolved. The \<open>then\<close> callback of \<open>doSync\<close> runs: no error message is
  recorded, the state becomes \<open>synced\<close>, the pending flag is cleared and a snapshot of
  the document that was not uploaded enters the history.
\<close>

theorem refused_upload_clears_pending:
  "ok ex_refused = False
   \<and> push ex_provider (Resolved (Some [''f1''])) (Resolved ex_refused) =
       Resolved (ex_provider\<lparr>fileId := Some ''f1''\<rparr>, \<lparr>result_id = None\<rparr>)
   \<and> pendingChanges ex_coord = True
   \<and> inflight ex_push_started = [PushReq (stamp 500 4 ex_local)]
   \<and> settle 0 (push_outcome (push ex_provider (Resolved (Some [''f1''])) (Resolved ex_refused))
                 510 520) ex_push_started =
       ex_coord\<lparr>pendingChanges := False, currentState := Synced, lastSyncTime := Some 520,
         lastErrorMsg := [],
         jStorage := Some (stamp 500 4 ex_local),
         window_profiles := Some (stamp 500 4 ex_local),
         versionHistory := Stored [\<lparr>timestamp = 510, data = stamp 500 4 ex_local\<rparr>]\<rparr>"
proof -
  have p: "push ex_provider (Resolved (Some [''f1''])) (Resolved ex_refused) =
       Resolved (ex_provider\<lparr>fileId := Some ''f1''\<rparr>, \<lparr>result_id = None\<rparr>)"
    by (simp add: push_def findFile_def truthy_id_def ex_provider_def ex_refused_def)
  have s: "settle 0 (PushOk 510 520) ex_push_started =
       ex_coord\<lparr>pendingChanges := False, currentState := Synced, lastSyncTime := Some 520,
         lastErrorMsg := [],
         jStorage := Some (stamp 500 4 ex_local),
         window_profiles := Some (stamp 500 4 ex_local),
         versionHistory := Stored [\<lparr>timestamp = 510, data = stamp 500 4 ex_local\<rparr>]\<rparr>"
    by (simp add: ex_push_started settle_def doSync_then_def setState_def saveVersionSnapshot_def
        loadHistory_def MAX_HISTORY_def Let_def ex_coord_def)
  show ?thesis
    unfolding p
    by (simp add: push_outcome_def s) (simp add: ex_push_started ex_refused_def ex_coord_def)
qed

section \<open>The claim about the arguments of mergeProfiles\<close>

subsection \<open>Which objects are written\<close>









































subsection \<open>The store model computes the merge of the values\<close>













































subsection \<open>The arguments are not written\<close>

lemma ex_heap_reads:
  "distinct_profile_names ex_heap 22"
  "builtins_ok ex_heap"
  "read_document ex_heap 15 = Some ex_local"
  "read_document ex_heap 22 = Some ex_remote"
  by code_simp+


text \<open>
  The remote profile \<open>constructor\<close>, which the local document lacks, is merged into the
  built-in function \<open>Object\<close> (the property \<open>constructor\<close> of \<open>Object.prototype\<close>, at
  address 0): after the call the function has the properties \<open>checklistData\<close> and
  \<open>checklistTimestamps\<close>, two new objects.
\<close>

lemma constructor_function_written:
  "ex_heap_constructor ! 0 = FunCell None None None []
   \<and> map_option (\<lambda>(h', m). (m, h' ! 0)) (mergeProfiles_st ex_heap_constructor 15 (Some 21))
       = Some (26, FunCell (Some 27) (Some 28) None [])"
  by code_simp



end
